theory Spec2Isabelle
  imports Main
begin

section \<open>Python strings\<close>

text \<open>
  A Python \<open>str\<close> is a sequence of Unicode code points, so a string is modelled as the
  list of its code points. \<open>str_of\<close> writes an ASCII literal as such a list.
\<close>

type_synonym py_str = "nat list"

definition str_of :: "string \<Rightarrow> py_str" where
  "str_of cs = map of_char cs"

text \<open>
  \<open>str.rstrip()\<close> without an argument removes the trailing characters for which
  \<open>str.isspace\<close> holds. The code points below are the ones CPython classifies as
  whitespace: TAB..CR, FS..US, SPACE, NEL, NBSP, OGHAM SPACE MARK, EN QUAD..HAIR SPACE,
  LINE and PARAGRAPH SEPARATOR, NARROW NBSP, MEDIUM MATHEMATICAL SPACE and
  IDEOGRAPHIC SPACE.
\<close>

definition isspace :: "nat \<Rightarrow> bool" where
  "isspace c \<longleftrightarrow>
     (9 \<le> c \<and> c \<le> 13) \<or> (28 \<le> c \<and> c \<le> 32) \<or> c = 133 \<or> c = 160 \<or> c = 5760 \<or>
     (8192 \<le> c \<and> c \<le> 8202) \<or> c = 8232 \<or> c = 8233 \<or> c = 8239 \<or> c = 8287 \<or>
     c = 12288"

definition rstrip :: "py_str \<Rightarrow> py_str" where
  "rstrip s = rev (dropWhile isspace (rev s))"

text \<open>\<open>sep.join(xs)\<close>; the source calls it with the empty separator.\<close>

fun join :: "py_str \<Rightarrow> py_str list \<Rightarrow> py_str" where
  "join sep [] = []"
| "join sep [x] = x"
| "join sep (x # y # ys) = x @ sep @ join sep (y # ys)"

section \<open>Data model\<close>

text \<open>
  The events of \<open>response["stream"]\<close>. The backend delivers each event as a dictionary
  with a single top-level key; \<open>run\<close> looks at three of them and passes over every other
  one (\<open>messageStart\<close>, \<open>contentBlockStart\<close>, \<open>contentBlockStop\<close>, ...), which is
  \<open>OtherEvent\<close> with the key it carries.
  \<^item> \<open>ContentBlockDelta text\<close> is \<open>{"contentBlockDelta": {"delta": {"text": text}}}\<close>;
  \<^item> \<open>MessageStop r\<close> is \<open>{"messageStop": {"stopReason": r}}\<close>;
  \<^item> \<open>Metadata i o\<close> is \<open>{"metadata": {"usage": {"inputTokens": i, "outputTokens": o}}}\<close>.

  The events are the ones the backend's interface describes: the request that \<open>run\<close>
  sends carries no tool configuration, so the delta of a \<open>contentBlockDelta\<close> is a text,
  and \<open>messageStop\<close> and \<open>metadata\<close> have their required members. The stream is finite.
\<close>

datatype event =
    ContentBlockDelta py_str
  | MessageStop py_str
  | Metadata int int
  | OtherEvent string

text \<open>
  \<open>class OnStopInput(BaseModel)\<close>. \<open>run\<close> builds it from values of the declared types,
  which the model's validation passes on as they are. The price is a Python float that
  \<open>run\<close> only passes on, so its type is left open.
\<close>

record 'p OnStopInput =
  full_token :: py_str
  stop_reason :: py_str
  input_token_count :: int
  output_token_count :: int
  price :: 'p

text \<open>
  \<open>class ConverseApiStreamHandler\<close>: the model name and the two callbacks. A callback is
  a Python callable and may keep state of its own, so it is a transformer of the caller's
  state \<open>'s\<close> that also returns a value \<open>'r\<close>. The callbacks, like \<open>calculate_price\<close>, are
  taken to return: \<open>run\<close> handles no exception of theirs.
\<close>

record ('m, 'p, 's, 'r) ConverseApiStreamHandler =
  model :: 'm
  on_stream :: "py_str \<Rightarrow> 's \<Rightarrow> 'r \<times> 's"
  on_stop :: "'p OnStopInput \<Rightarrow> 's \<Rightarrow> 'r \<times> 's"

text \<open>
  The exceptions \<open>run\<close> can meet before the stream is open: a \<open>KeyError\<close> of one of its
  own dictionary reads, or whatever \<open>client.converse_stream\<close> raises.
\<close>

datatype 'x exn = KeyError string | ClientError 'x

text \<open>
  What \<open>run\<close> does besides computing, in program order. Up to the backend call
  (lines 55 to 74): the log calls and the call of \<open>client.converse_stream\<close> with the
  keyword arguments it got.
\<close>

datatype ('v, 'x) call_effect =
    LogInfoArgs "string \<rightharpoonup> 'v"
  | ConverseStream "string \<rightharpoonup> 'v"
  | LogError "'x exn"

text \<open>
  In the loop over the stream (lines 76 to 108): the log calls, each callback call with
  its argument and the value it returned, and each \<open>yield\<close>. \<open>run\<close> is a generator: its
  body runs only as far as its consumer pulls, so a consumer that stops after \<open>k\<close>
  elements sees the effects up to the \<open>k\<close>-th \<open>Yield\<close>; the whole list is what a consumer
  that exhausts the generator sees.
\<close>

datatype ('p, 'r) effect =
    LogDebug event
  | CallOnStream py_str 'r
  | CallOnStop "'p OnStopInput" 'r
  | LogInfoEvent event
  | Yield 'r

datatype 'x outcome = Returned | Raised "'x exn"

text \<open>
  A whole run: the effects up to the backend call, then the effects of the loop, how the
  generator ended, and the caller's state at the end.
\<close>

record ('v, 'x, 'p, 'r, 's) run_result =
  call_trace :: "('v, 'x) call_effect list"
  trace :: "('p, 'r) effect list"
  outcome :: "'x outcome"
  final_state :: 's

section \<open>The handler's \<open>run\<close>\<close>

text \<open>
  Lines 58 to 68: the keyword arguments of the backend call. The dictionary display
  reads the five required keys of \<open>args\<close> in order, and a missing one raises
  \<open>KeyError\<close> (\<open>Inl\<close> of that key); \<open>guardrailConfig\<close> is copied only when \<open>args\<close> has
  the key.
\<close>

definition base_args_of :: "(string \<rightharpoonup> 'v) \<Rightarrow> string + (string \<rightharpoonup> 'v)" where
  "base_args_of args =
     (case args ''model_id'' of
        None \<Rightarrow> Inl ''model_id''
      | Some model_id \<Rightarrow>
     (case args ''messages'' of
        None \<Rightarrow> Inl ''messages''
      | Some messages \<Rightarrow>
     (case args ''inference_config'' of
        None \<Rightarrow> Inl ''inference_config''
      | Some inference_config \<Rightarrow>
     (case args ''system'' of
        None \<Rightarrow> Inl ''system''
      | Some system \<Rightarrow>
     (case args ''additional_model_request_fields'' of
        None \<Rightarrow> Inl ''additional_model_request_fields''
      | Some additional \<Rightarrow>
          let base_args =
                [''modelId'' \<mapsto> model_id,
                 ''messages'' \<mapsto> messages,
                 ''inferenceConfig'' \<mapsto> inference_config,
                 ''system'' \<mapsto> system,
                 ''additionalModelRequestFields'' \<mapsto> additional]
          in (case args ''guardrailConfig'' of
                None \<Rightarrow> Inr base_args
              | Some guardrail \<Rightarrow> Inr (base_args(''guardrailConfig'' \<mapsto> guardrail))))))))"

text \<open>
  Lines 79 to 108: the body of the \<open>for\<close> loop on one event, from the locals
  \<open>completions\<close> and \<open>stop_reason\<close> and the caller's state to the effects of this
  iteration, the locals and the caller's state after it.
\<close>

fun loop_body ::
  "('m, 'p, 's, 'r) ConverseApiStreamHandler \<Rightarrow> ('m \<Rightarrow> int \<Rightarrow> int \<Rightarrow> 'p) \<Rightarrow> event \<Rightarrow>
   py_str list \<Rightarrow> py_str \<Rightarrow> 's \<Rightarrow>
   ('p, 'r) effect list \<times> py_str list \<times> py_str \<times> 's" where
  "loop_body h calculate_price (ContentBlockDelta text) completions stop_reason' s =
     (case on_stream h text s of (response, s') \<Rightarrow>
        ([LogDebug (ContentBlockDelta text), CallOnStream text response, Yield response],
         completions @ [text], stop_reason', s'))"
| "loop_body h calculate_price (MessageStop r) completions stop_reason' s =
     ([LogDebug (MessageStop r)], completions, r, s)"
| "loop_body h calculate_price (Metadata input_tokens output_tokens) completions stop_reason' s =
     (let price' = calculate_price (model h) input_tokens output_tokens;
          concatenated = join [] completions;
          summary = \<lparr>full_token = rstrip concatenated,
                     stop_reason = stop_reason',
                     input_token_count = input_tokens,
                     output_token_count = output_tokens,
                     price = price'\<rparr>
      in (case on_stop h summary s of (response, s') \<Rightarrow>
           ([LogDebug (Metadata input_tokens output_tokens),
             CallOnStop summary response,
             LogInfoEvent (Metadata input_tokens output_tokens),
             Yield response],
            completions, stop_reason', s')))"
| "loop_body h calculate_price (OtherEvent k) completions stop_reason' s =
     ([], completions, stop_reason', s)"

text \<open>Lines 78 to 108: the \<open>for\<close> loop over the events of the stream.\<close>

fun stream_loop ::
  "('m, 'p, 's, 'r) ConverseApiStreamHandler \<Rightarrow> ('m \<Rightarrow> int \<Rightarrow> int \<Rightarrow> 'p) \<Rightarrow> event list \<Rightarrow>
   py_str list \<Rightarrow> py_str \<Rightarrow> 's \<Rightarrow>
   ('p, 'r) effect list \<times> py_str list \<times> py_str \<times> 's" where
  "stream_loop h calculate_price [] completions stop_reason' s =
     ([], completions, stop_reason', s)"
| "stream_loop h calculate_price (ev # evs) completions stop_reason' s =
     (case loop_body h calculate_price ev completions stop_reason' s of
        (tr, completions1, stop_reason1, s1) \<Rightarrow>
          (case stream_loop h calculate_price evs completions1 stop_reason1 s1 of
             (tr', completions2, stop_reason2, s2) \<Rightarrow>
               (tr @ tr', completions2, stop_reason2, s2)))"

text \<open>
  \<open>run\<close>, for a consumer that exhausts the generator. \<open>calculate_price\<close> and the
  client's \<open>converse_stream\<close> are not part of this file and are parameters; the latter
  either raises or returns the events of \<open>response["stream"]\<close>. The client itself
  (line 55) is taken as obtained. The \<open>try\<close> block logs and re-raises whatever is raised
  inside it; the loop starts from no completions and the empty stop reason.
\<close>

definition run ::
  "('m, 'p, 's, 'r) ConverseApiStreamHandler \<Rightarrow> ('m \<Rightarrow> int \<Rightarrow> int \<Rightarrow> 'p) \<Rightarrow>
   ((string \<rightharpoonup> 'v) \<Rightarrow> 'x + event list) \<Rightarrow> (string \<rightharpoonup> 'v) \<Rightarrow> 's \<Rightarrow>
   ('v, 'x, 'p, 'r, 's) run_result" where
  "run h calculate_price converse_stream args s =
     (case base_args_of args of
        Inl k \<Rightarrow>
          \<lparr>call_trace = [LogError (KeyError k)], trace = [],
           outcome = Raised (KeyError k), final_state = s\<rparr>
      | Inr base_args \<Rightarrow>
          (case converse_stream base_args of
             Inl e \<Rightarrow>
               \<lparr>call_trace =
                  [LogInfoArgs args, ConverseStream base_args, LogError (ClientError e)],
                trace = [], outcome = Raised (ClientError e), final_state = s\<rparr>
           | Inr stream \<Rightarrow>
               (case stream_loop h calculate_price stream [] [] s of
                  (tr, completions, stop_reason', s') \<Rightarrow>
                    \<lparr>call_trace = [LogInfoArgs args, ConverseStream base_args],
                     trace = tr, outcome = Returned, final_state = s'\<rparr>)))"

section \<open>Reading a trace\<close>

fun on_stream_calls :: "('p, 'r) effect list \<Rightarrow> py_str list" where
  "on_stream_calls [] = []"
| "on_stream_calls (CallOnStream text r # tr) = text # on_stream_calls tr"
| "on_stream_calls (e # tr) = on_stream_calls tr"

fun on_stop_calls :: "('p, 'r) effect list \<Rightarrow> 'p OnStopInput list" where
  "on_stop_calls [] = []"
| "on_stop_calls (CallOnStop summary r # tr) = summary # on_stop_calls tr"
| "on_stop_calls (e # tr) = on_stop_calls tr"

fun yields :: "('p, 'r) effect list \<Rightarrow> 'r list" where
  "yields [] = []"
| "yields (Yield r # tr) = r # yields tr"
| "yields (e # tr) = yields tr"

fun deltas :: "event list \<Rightarrow> py_str list" where
  "deltas [] = []"
| "deltas (ContentBlockDelta text # evs) = text # deltas evs"
| "deltas (ev # evs) = deltas evs"

text \<open>What follows the first call of \<open>on_stop\<close> in a trace.\<close>

fun after_on_stop :: "('p, 'r) effect list \<Rightarrow> ('p, 'r) effect list" where
  "after_on_stop [] = []"
| "after_on_stop (CallOnStop summary r # tr) = tr"
| "after_on_stop (e # tr) = after_on_stop tr"

text \<open>The token counts of the \<open>Metadata\<close> events of a stream, in order.\<close>

fun usages :: "event list \<Rightarrow> (int \<times> int) list" where
  "usages [] = []"
| "usages (Metadata i o' # evs) = (i, o') # usages evs"
| "usages (ev # evs) = usages evs"

text \<open>The stop reasons of the \<open>MessageStop\<close> events of a stream, in order.\<close>

fun stop_reasons :: "event list \<Rightarrow> py_str list" where
  "stop_reasons [] = []"
| "stop_reasons (MessageStop r # evs) = r # stop_reasons evs"
| "stop_reasons (ev # evs) = stop_reasons evs"

section \<open>An example request, handler and price function\<close>

text \<open>
  A request with the five required keys and no guardrail, one with a guardrail, a
  handler whose callbacks count their calls in the caller's state and return what they
  were given, and a price function.
\<close>

definition ex_args :: "string \<rightharpoonup> string" where
  "ex_args =
     [''model_id'' \<mapsto> ''anthropic.claude-3-haiku'',
      ''messages'' \<mapsto> ''hello'',
      ''inference_config'' \<mapsto> ''max_tokens=100'',
      ''system'' \<mapsto> ''be brief'',
      ''additional_model_request_fields'' \<mapsto> ''top_k=250'']"

definition ex_base_args :: "string \<rightharpoonup> string" where
  "ex_base_args =
     [''modelId'' \<mapsto> ''anthropic.claude-3-haiku'',
      ''messages'' \<mapsto> ''hello'',
      ''inferenceConfig'' \<mapsto> ''max_tokens=100'',
      ''system'' \<mapsto> ''be brief'',
      ''additionalModelRequestFields'' \<mapsto> ''top_k=250'']"

definition ex_handler ::
  "(string, int, nat, py_str + int OnStopInput) ConverseApiStreamHandler" where
  "ex_handler =
     \<lparr>model = ''claude-v3-haiku'',
      on_stream = (\<lambda>text n. (Inl text, Suc n)),
      on_stop = (\<lambda>summary n. (Inr summary, Suc n))\<rparr>"

definition ex_price :: "string \<Rightarrow> int \<Rightarrow> int \<Rightarrow> int" where
  "ex_price m i o' = 3 * i + 15 * o'"

text \<open>The stream of the scenario of the specification.\<close>

definition ex_stream :: "event list" where
  "ex_stream =
     [ContentBlockDelta (str_of ''Hi''), ContentBlockDelta (str_of '' there''),
      MessageStop (str_of ''end_turn''), Metadata 5 2]"

text \<open>A backend that answers every call with the given events, and one that fails.\<close>

definition ex_client :: "event list \<Rightarrow> (string \<rightharpoonup> string) \<Rightarrow> string + event list" where
  "ex_client evs base_args = Inr evs"

definition ex_failing_client :: "(string \<rightharpoonup> string) \<Rightarrow> string + event list" where
  "ex_failing_client base_args = Inl ''EndpointConnectionError''"

section \<open>Properties of the loop\<close>

lemma join_empty: "join [] xs = concat xs"
  by (induction "[]::nat list" xs rule: join.induct) simp_all

lemma on_stream_calls_append:
  "on_stream_calls (a @ b) = on_stream_calls a @ on_stream_calls b"
  by (induction a rule: on_stream_calls.induct) simp_all

lemma on_stop_calls_append:
  "on_stop_calls (a @ b) = on_stop_calls a @ on_stop_calls b"
  by (induction a rule: on_stop_calls.induct) simp_all

lemma yields_append: "yields (a @ b) = yields a @ yields b"
  by (induction a rule: yields.induct) simp_all

lemma deltas_append: "deltas (a @ b) = deltas a @ deltas b"
  by (induction a rule: deltas.induct) simp_all

lemma usages_append: "usages (a @ b) = usages a @ usages b"
  by (induction a rule: usages.induct) simp_all

lemma stop_reasons_append: "stop_reasons (a @ b) = stop_reasons a @ stop_reasons b"
  by (induction a rule: stop_reasons.induct) simp_all

lemma stream_loop_append:
  "stream_loop h cp (xs @ ys) c r s =
     (case stream_loop h cp xs c r s of (t1, c1, r1, s1) \<Rightarrow>
        (case stream_loop h cp ys c1 r1 s1 of (t2, c2, r2, s2) \<Rightarrow> (t1 @ t2, c2, r2, s2)))"
  by (induction xs arbitrary: c r s) (simp_all split: prod.splits)

lemma loop_completions:
  "fst (snd (stream_loop h cp evs c r s)) = c @ deltas evs"
proof (induction evs arbitrary: c r s)
  case Nil
  then show ?case by simp
next
  case (Cons ev evs)
  then show ?case by (cases ev) (simp_all add: Let_def split_beta)
qed

lemma loop_stop_reason:
  "fst (snd (snd (stream_loop h cp evs c r s))) = last (r # stop_reasons evs)"
proof (induction evs arbitrary: c r s)
  case Nil
  then show ?case by simp
next
  case (Cons ev evs)
  then show ?case by (cases ev) (simp_all add: Let_def split_beta)
qed

lemma loop_on_stream_calls:
  "on_stream_calls (fst (stream_loop h cp evs c r s)) = deltas evs"
proof (induction evs arbitrary: c r s)
  case Nil
  then show ?case by simp
next
  case (Cons ev evs)
  then show ?case
    by (cases ev) (simp_all add: Let_def split_beta on_stream_calls_append)
qed

lemma loop_on_stop_calls:
  "map (\<lambda>x. (input_token_count x, output_token_count x, price x))
       (on_stop_calls (fst (stream_loop h cp evs c r s))) =
   map (\<lambda>(i, o'). (i, o', cp (model h) i o')) (usages evs)"
proof (induction evs arbitrary: c r s)
  case Nil
  then show ?case by simp
next
  case (Cons ev evs)
  then show ?case
    by (cases ev) (simp_all add: Let_def split_beta on_stop_calls_append)
qed

lemma loop_on_stop_calls_length:
  "length (on_stop_calls (fst (stream_loop h cp evs c r s))) = length (usages evs)"
  using arg_cong [OF loop_on_stop_calls, of length h cp evs c r s] by simp

lemma loop_yields_length:
  "length (yields (fst (stream_loop h cp evs c r s))) =
   length (deltas evs) + length (usages evs)"
proof (induction evs arbitrary: c r s)
  case Nil
  then show ?case by simp
next
  case (Cons ev evs)
  then show ?case
    by (cases ev) (simp_all add: Let_def split_beta yields_append)
qed

lemma run_opened:
  assumes "base_args_of args = Inr base_args" and "converse_stream base_args = Inr evs"
  shows "run h cp converse_stream args s =
           \<lparr>call_trace = [LogInfoArgs args, ConverseStream base_args],
            trace = fst (stream_loop h cp evs [] [] s),
            outcome = Returned,
            final_state = snd (snd (snd (stream_loop h cp evs [] [] s)))\<rparr>"
  using assms by (simp add: run_def split_beta)

lemma deltas_map [simp]: "deltas (map ContentBlockDelta ts) = ts"
  by (induction ts) simp_all

lemma usages_map [simp]: "usages (map ContentBlockDelta ts) = []"
  by (induction ts) simp_all

lemma loop_metadata:
  "stream_loop h cp (pre @ Metadata i o' # post) c r s =
     (let (t1, c1, r1, s1) = stream_loop h cp pre c r s;
          summary = \<lparr>full_token = rstrip (concat (c @ deltas pre)),
                     stop_reason = last (r # stop_reasons pre),
                     input_token_count = i, output_token_count = o',
                     price = cp (model h) i o'\<rparr>;
          (response, s2) = on_stop h summary s1;
          (t3, c3, r3, s3) = stream_loop h cp post c1 r1 s2
      in (t1 @ [LogDebug (Metadata i o'), CallOnStop summary response,
                LogInfoEvent (Metadata i o'), Yield response] @ t3, c3, r3, s3))"
proof -
  obtain t1 c1 r1 s1 where pre: "stream_loop h cp pre c r s = (t1, c1, r1, s1)"
    by (metis prod_cases4)
  have c1: "c1 = c @ deltas pre"
    using loop_completions [of h cp pre c r s] by (simp add: pre)
  have r1: "r1 = last (r # stop_reasons pre)"
    using loop_stop_reason [of h cp pre c r s] by (simp add: pre)
  show ?thesis
    by (simp add: stream_loop_append pre c1 r1 Let_def split_beta join_empty)
qed

lemma ex_base_args: "base_args_of ex_args = Inr ex_base_args"
  by (simp add: base_args_of_def ex_args_def ex_base_args_def)

lemma loop_delta:
  "stream_loop h cp (pre @ ContentBlockDelta text # post) c r s =
     (case stream_loop h cp pre c r s of (t1, c1, r1, s1) \<Rightarrow>
      case on_stream h text s1 of (response, s2) \<Rightarrow>
      case stream_loop h cp post (c1 @ [text]) r1 s2 of (t3, c3, r3, s3) \<Rightarrow>
        (t1 @ [LogDebug (ContentBlockDelta text), CallOnStream text response,
               Yield response] @ t3, c3, r3, s3))"
  by (simp add: stream_loop_append split_beta)

lemma loop_message_stop:
  "stream_loop h cp (pre @ MessageStop r' # post) c r s =
     (case stream_loop h cp pre c r s of (t1, c1, r1, s1) \<Rightarrow>
      case stream_loop h cp post c1 r' s1 of (t3, c3, r3, s3) \<Rightarrow>
        (t1 @ [LogDebug (MessageStop r')] @ t3, c3, r3, s3))"
  by (simp add: stream_loop_append split_beta)

lemma loop_quiet_yields:
  "deltas evs = [] \<Longrightarrow> usages evs = [] \<Longrightarrow> yields (fst (stream_loop h cp evs c r s)) = []"
  using loop_yields_length [of h cp evs c r s] by simp

lemma loop_no_on_stop:
  "usages evs = [] \<Longrightarrow> on_stop_calls (fst (stream_loop h cp evs c r s)) = []"
  using loop_on_stop_calls_length [of h cp evs c r s] by simp

lemma after_on_stop_append:
  "on_stop_calls a = [] \<Longrightarrow> after_on_stop (a @ b) = after_on_stop b"
  by (induction a rule: on_stop_calls.induct) simp_all

lemma run_trace:
  assumes "base_args_of args = Inr base_args" and "converse_stream base_args = Inr evs"
  shows "trace (run h cp converse_stream args s) = fst (stream_loop h cp evs [] [] s)"
  using assms by (simp add: run_opened)

lemma base_args_guardrail:
  "base_args_of args = Inr base_args \<Longrightarrow>
     base_args ''guardrailConfig'' = args ''guardrailConfig''"
  by (auto simp: base_args_of_def Let_def split: option.splits)

lemma run_calls:
  "ConverseStream b \<in> set (call_trace (run h cp converse_stream args s)) \<Longrightarrow>
     base_args_of args = Inr b"
  by (auto simp: run_def split_beta split: sum.splits)

lemma ex_client_opened: "ex_client evs ex_base_args = Inr evs"
  by (simp add: ex_client_def)

lemma ex_run:
  "trace (run h cp (ex_client evs) ex_args s) = fst (stream_loop h cp evs [] [] s)"
  using ex_base_args by (simp add: run_trace ex_client_def)

section \<open>Properties of \<open>run\<close>\<close>

text \<open>
  C1. When the stream is the \<open>ContentBlockDelta\<close> events with texts \<open>t1..tn\<close> followed
  by a \<open>Metadata\<close> event, \<open>on_stop\<close> is called with one summary, and its \<open>full_token\<close> is
  the concatenation of \<open>t1..tn\<close> in arrival order with the trailing whitespace removed.
\<close>

theorem full_token_is_rstrip_of_concatenation:
  assumes "base_args_of args = Inr base_args"
    and "converse_stream base_args = Inr (map ContentBlockDelta ts @ [Metadata i o'])"
  shows "map full_token (on_stop_calls (trace (run h cp converse_stream args s))) =
           [rstrip (concat ts)]"
proof -
  have quiet: "on_stop_calls (fst (stream_loop h cp (map ContentBlockDelta ts) [] [] s)) = []"
    using loop_on_stop_calls_length [of h cp "map ContentBlockDelta ts" "[]" "[]" s]
    by simp
  have "trace (run h cp converse_stream args s) =
          fst (stream_loop h cp (map ContentBlockDelta ts @ [Metadata i o']) [] [] s)"
    using assms by (simp add: run_opened)
  then show ?thesis
    by (simp add: loop_metadata Let_def split_beta on_stop_calls_append quiet)
qed

theorem full_token_is_rstrip_of_concatenation_witness:
  "map full_token (on_stop_calls (trace (run ex_handler ex_price
      (ex_client (map ContentBlockDelta [str_of ''Hi'', str_of '' there  ''] @ [Metadata 5 2]))
      ex_args 0))) = [str_of ''Hi there'']"
  using full_token_is_rstrip_of_concatenation
    [where converse_stream =
       "ex_client (map ContentBlockDelta [str_of ''Hi'', str_of '' there  ''] @ [Metadata 5 2])"
     and ts = "[str_of ''Hi'', str_of '' there  '']" and i = 5 and o' = 2
     and h = ex_handler and cp = ex_price and s = 0,
     OF ex_base_args]
  by (simp add: ex_client_def rstrip_def isspace_def str_of_def)

text \<open>
  C2. On every stream, \<open>on_stream\<close> is called once for each \<open>ContentBlockDelta\<close> event,
  in arrival order, with the text of the event as it came. For a
  \<open>ContentBlockDelta text\<close> between the events \<open>pre\<close> and \<open>post\<close>: after the effects \<open>t1\<close> of
  \<open>pre\<close>, which leave the completions \<open>deltas pre\<close>, the event adds the debug log entry,
  the call of \<open>on_stream\<close> on \<open>text\<close> and the \<open>yield\<close> of the value the call returned, and
  the loop goes on over \<open>post\<close> with \<open>text\<close> appended to the completions.
\<close>

theorem on_stream_called_once_per_delta:
  assumes "base_args_of args = Inr base_args"
    and "converse_stream base_args = Inr evs"
  shows "on_stream_calls (trace (run h cp converse_stream args s)) = deltas evs \<and>
         (\<forall>pre text post. evs = pre @ ContentBlockDelta text # post \<longrightarrow>
            (case stream_loop h cp pre [] [] s of (t1, completions, r1, s1) \<Rightarrow>
             case on_stream h text s1 of (response, s2) \<Rightarrow>
             case stream_loop h cp post (completions @ [text]) r1 s2 of (t3, c3, r3, s3) \<Rightarrow>
               trace (run h cp converse_stream args s) =
                 t1 @ [LogDebug (ContentBlockDelta text), CallOnStream text response,
                       Yield response] @ t3 \<and>
               completions = deltas pre))"
proof -
  have tr: "trace (run h cp converse_stream args s) = fst (stream_loop h cp evs [] [] s)"
    using assms by (simp add: run_opened)
  have "fst (snd (stream_loop h cp pre [] [] s)) = deltas pre" for pre
    using loop_completions [of h cp pre "[]" "[]" s] by simp
  then show ?thesis
    by (simp add: tr loop_on_stream_calls loop_delta split_beta)
qed

theorem on_stream_called_once_per_delta_witness:
  "on_stream_calls (trace (run ex_handler ex_price (ex_client ex_stream) ex_args 0)) =
     [str_of ''Hi'', str_of '' there''] \<and>
   take 3 (trace (run ex_handler ex_price (ex_client ex_stream) ex_args 0)) =
     [LogDebug (ContentBlockDelta (str_of ''Hi'')),
      CallOnStream (str_of ''Hi'') (Inl (str_of ''Hi'')),
      Yield (Inl (str_of ''Hi''))]"
proof -
  note claim = on_stream_called_once_per_delta
    [where converse_stream = "ex_client ex_stream" and h = ex_handler and cp = ex_price
       and s = 0, OF ex_base_args ex_client_opened]
  have calls: "on_stream_calls (trace (run ex_handler ex_price (ex_client ex_stream) ex_args 0)) =
      [str_of ''Hi'', str_of '' there'']"
    using claim by (simp add: ex_stream_def)
  have "ex_stream = [] @ ContentBlockDelta (str_of ''Hi'') #
      [ContentBlockDelta (str_of '' there''), MessageStop (str_of ''end_turn''), Metadata 5 2]"
    by (simp add: ex_stream_def)
  from claim [THEN conjunct2, rule_format, OF this]
  have "take 3 (trace (run ex_handler ex_price (ex_client ex_stream) ex_args 0)) =
     [LogDebug (ContentBlockDelta (str_of ''Hi'')),
      CallOnStream (str_of ''Hi'') (Inl (str_of ''Hi'')),
      Yield (Inl (str_of ''Hi''))]"
    by (simp add: split_beta ex_handler_def)
  with calls show ?thesis by simp
qed

text \<open>
  C3, as the code has it. \<open>on_stop\<close> is called once for each \<open>Metadata\<close> event of the
  stream: never when the stream has none, once when it has one, and again for every
  further one (the loop has no exit after a \<open>Metadata\<close> event).
\<close>

theorem on_stop_called_once_per_metadata:
  assumes "base_args_of args = Inr base_args"
    and "converse_stream base_args = Inr evs"
  shows "length (on_stop_calls (trace (run h cp converse_stream args s))) =
           length (usages evs)"
  using assms by (simp add: run_trace loop_on_stop_calls_length)

theorem on_stop_called_once_per_metadata_witness:
  "length (on_stop_calls (trace (run ex_handler ex_price (ex_client ex_stream) ex_args 0))) = 1"
  using on_stop_called_once_per_metadata
    [where converse_stream = "ex_client ex_stream" and h = ex_handler and cp = ex_price
       and s = 0, OF ex_base_args ex_client_opened]
  by (simp add: ex_stream_def)

text \<open>
  C3 as stated fails on a stream with two \<open>Metadata\<close> events: \<open>on_stop\<close> is called
  twice in one run.
\<close>

theorem on_stop_called_twice_counterexample:
  "\<not> length (on_stop_calls (trace (run ex_handler ex_price
        (ex_client [Metadata 5 2, Metadata 7 3]) ex_args 0))) \<le> 1"
  by (simp add: ex_run ex_handler_def Let_def)

text \<open>
  C4, as the code has it. When the stream has one \<open>Metadata\<close> event and no
  \<open>ContentBlockDelta\<close> event after it, \<open>on_stop\<close> is called once, the value it returned
  is the only element yielded after the call and the last element of the run, and no
  callback is called after it.
\<close>

theorem metadata_terminal_when_nothing_follows:
  assumes "base_args_of args = Inr base_args"
    and "converse_stream base_args = Inr (pre @ Metadata i o' # post)"
    and "usages pre = []" and "deltas post = []" and "usages post = []"
  shows "\<exists>summary response.
           on_stop_calls (trace (run h cp converse_stream args s)) = [summary] \<and>
           CallOnStop summary response \<in> set (trace (run h cp converse_stream args s)) \<and>
           yields (after_on_stop (trace (run h cp converse_stream args s))) = [response] \<and>
           last (yields (trace (run h cp converse_stream args s))) = response \<and>
           on_stream_calls (after_on_stop (trace (run h cp converse_stream args s))) = [] \<and>
           on_stop_calls (after_on_stop (trace (run h cp converse_stream args s))) = []"
proof -
  have tr: "trace (run h cp converse_stream args s) =
      fst (stream_loop h cp (pre @ Metadata i o' # post) [] [] s)"
    using assms(1,2) by (simp add: run_trace)
  have pre: "on_stop_calls (fst (stream_loop h cp pre [] [] s)) = []"
    using assms(3) by (simp add: loop_no_on_stop)
  have post: "on_stop_calls (fst (stream_loop h cp post c r t)) = []"
      "yields (fst (stream_loop h cp post c r t)) = []"
      "on_stream_calls (fst (stream_loop h cp post c r t)) = []" for c r t
    using assms(4,5) by (simp_all add: loop_no_on_stop loop_quiet_yields loop_on_stream_calls)
  show ?thesis
    by (simp add: tr loop_metadata Let_def split_beta on_stop_calls_append yields_append
        after_on_stop_append pre post)
qed

theorem metadata_terminal_when_nothing_follows_witness:
  "\<exists>summary response.
     on_stop_calls (trace (run ex_handler ex_price (ex_client ex_stream) ex_args 0)) = [summary] \<and>
     CallOnStop summary response \<in>
       set (trace (run ex_handler ex_price (ex_client ex_stream) ex_args 0)) \<and>
     yields (after_on_stop (trace (run ex_handler ex_price (ex_client ex_stream) ex_args 0))) =
       [response] \<and>
     last (yields (trace (run ex_handler ex_price (ex_client ex_stream) ex_args 0))) = response \<and>
     on_stream_calls
       (after_on_stop (trace (run ex_handler ex_price (ex_client ex_stream) ex_args 0))) = [] \<and>
     on_stop_calls
       (after_on_stop (trace (run ex_handler ex_price (ex_client ex_stream) ex_args 0))) = []"
proof -
  have "ex_client ex_stream ex_base_args =
      Inr ([ContentBlockDelta (str_of ''Hi''), ContentBlockDelta (str_of '' there''),
            MessageStop (str_of ''end_turn'')] @ Metadata 5 2 # [])"
    by (simp add: ex_client_def ex_stream_def)
  from metadata_terminal_when_nothing_follows
    [where converse_stream = "ex_client ex_stream" and h = ex_handler and cp = ex_price
       and s = 0, OF ex_base_args this]
  show ?thesis by simp
qed

text \<open>
  C4 as stated fails on a stream with a \<open>ContentBlockDelta\<close> event after the
  \<open>Metadata\<close> event: the loop goes on, calls \<open>on_stream\<close> and yields once more.
\<close>

theorem metadata_not_terminal_counterexample:
  "\<not> (\<exists>summary response.
     on_stop_calls (trace (run ex_handler ex_price
       (ex_client [Metadata 5 2, ContentBlockDelta (str_of ''late'')]) ex_args 0)) = [summary] \<and>
     CallOnStop summary response \<in> set (trace (run ex_handler ex_price
       (ex_client [Metadata 5 2, ContentBlockDelta (str_of ''late'')]) ex_args 0)) \<and>
     yields (after_on_stop (trace (run ex_handler ex_price
       (ex_client [Metadata 5 2, ContentBlockDelta (str_of ''late'')]) ex_args 0))) =
       [response] \<and>
     last (yields (trace (run ex_handler ex_price
       (ex_client [Metadata 5 2, ContentBlockDelta (str_of ''late'')]) ex_args 0))) = response \<and>
     on_stream_calls (after_on_stop (trace (run ex_handler ex_price
       (ex_client [Metadata 5 2, ContentBlockDelta (str_of ''late'')]) ex_args 0))) = [] \<and>
     on_stop_calls (after_on_stop (trace (run ex_handler ex_price
       (ex_client [Metadata 5 2, ContentBlockDelta (str_of ''late'')]) ex_args 0))) = [])"
  by (simp add: ex_run ex_handler_def Let_def)

text \<open>
  C5. When the stream has no \<open>Metadata\<close> event, \<open>on_stream\<close> is called once for
  each \<open>ContentBlockDelta\<close> event, one element is yielded for each, \<open>on_stop\<close> is never
  called, so no summary is built, and the generator returns without raising.
\<close>

theorem no_metadata_no_summary:
  assumes "base_args_of args = Inr base_args"
    and "converse_stream base_args = Inr evs"
    and "usages evs = []"
  shows "on_stream_calls (trace (run h cp converse_stream args s)) = deltas evs \<and>
         length (yields (trace (run h cp converse_stream args s))) = length (deltas evs) \<and>
         on_stop_calls (trace (run h cp converse_stream args s)) = [] \<and>
         outcome (run h cp converse_stream args s) = Returned"
  using assms
  by (simp add: run_opened loop_on_stream_calls loop_yields_length loop_no_on_stop)

theorem no_metadata_no_summary_witness:
  "on_stream_calls (trace (run ex_handler ex_price
      (ex_client [ContentBlockDelta (str_of ''Hi''), ContentBlockDelta (str_of '' there'')])
      ex_args 0)) = [str_of ''Hi'', str_of '' there''] \<and>
   length (yields (trace (run ex_handler ex_price
      (ex_client [ContentBlockDelta (str_of ''Hi''), ContentBlockDelta (str_of '' there'')])
      ex_args 0))) = 2 \<and>
   on_stop_calls (trace (run ex_handler ex_price
      (ex_client [ContentBlockDelta (str_of ''Hi''), ContentBlockDelta (str_of '' there'')])
      ex_args 0)) = [] \<and>
   outcome (run ex_handler ex_price
      (ex_client [ContentBlockDelta (str_of ''Hi''), ContentBlockDelta (str_of '' there'')])
      ex_args 0) = Returned"
  using no_metadata_no_summary
    [where converse_stream =
        "ex_client [ContentBlockDelta (str_of ''Hi''), ContentBlockDelta (str_of '' there'')]"
       and h = ex_handler and cp = ex_price and s = 0, OF ex_base_args ex_client_opened]
  by simp

text \<open>
  C6. The summaries passed to \<open>on_stop\<close> carry, for each \<open>Metadata\<close> event in order,
  its two token counts and as price the value of \<open>calculate_price\<close> on the handler's
  model and these two counts, unchanged.
\<close>

theorem price_is_calculate_price:
  assumes "base_args_of args = Inr base_args"
    and "converse_stream base_args = Inr evs"
  shows "map (\<lambda>x. (input_token_count x, output_token_count x, price x))
           (on_stop_calls (trace (run h calculate_price converse_stream args s))) =
         map (\<lambda>(i, o'). (i, o', calculate_price (model h) i o')) (usages evs)"
  using assms by (simp add: run_trace loop_on_stop_calls)

theorem price_is_calculate_price_witness:
  "map (\<lambda>x. (input_token_count x, output_token_count x, price x))
     (on_stop_calls (trace (run ex_handler ex_price (ex_client ex_stream) ex_args 0))) =
   [(5, 2, ex_price ''claude-v3-haiku'' 5 2)]"
  using price_is_calculate_price
    [where converse_stream = "ex_client ex_stream" and h = ex_handler
       and calculate_price = ex_price and s = 0, OF ex_base_args ex_client_opened]
  by (simp add: ex_stream_def ex_handler_def)

text \<open>
  C7. Whenever \<open>run\<close> calls the backend, the keyword arguments have
  \<open>guardrailConfig\<close> exactly when \<open>args\<close> has it, with the value of \<open>args\<close>; when \<open>args\<close>
  has no such key the keyword arguments have none either.
\<close>

theorem guardrail_passed_iff_supplied:
  assumes "ConverseStream base_args \<in> set (call_trace (run h cp converse_stream args s))"
  shows "base_args ''guardrailConfig'' = args ''guardrailConfig'' \<and>
         (''guardrailConfig'' \<in> dom base_args \<longleftrightarrow> ''guardrailConfig'' \<in> dom args)"
  using base_args_guardrail [OF run_calls [OF assms]] by (simp add: dom_def)

theorem guardrail_passed_iff_supplied_witness:
  "ConverseStream ex_base_args \<in>
     set (call_trace (run ex_handler ex_price (ex_client ex_stream) ex_args 0)) \<and>
   ex_base_args ''guardrailConfig'' = None \<and>
   ''guardrailConfig'' \<notin> dom ex_base_args \<and>
   ConverseStream (ex_base_args(''guardrailConfig'' \<mapsto> ''gr-1'')) \<in>
     set (call_trace (run ex_handler ex_price (ex_client ex_stream)
       (ex_args(''guardrailConfig'' \<mapsto> ''gr-1'')) 0)) \<and>
   (ex_base_args(''guardrailConfig'' \<mapsto> ''gr-1'')) ''guardrailConfig'' = Some ''gr-1''"
proof -
  have a: "ConverseStream ex_base_args \<in>
     set (call_trace (run ex_handler ex_price (ex_client ex_stream) ex_args 0))"
    using ex_base_args by (simp add: run_opened ex_client_def)
  have "base_args_of (ex_args(''guardrailConfig'' \<mapsto> ''gr-1'')) =
      Inr (ex_base_args(''guardrailConfig'' \<mapsto> ''gr-1''))"
    by (simp add: base_args_of_def ex_args_def ex_base_args_def)
  then have b: "ConverseStream (ex_base_args(''guardrailConfig'' \<mapsto> ''gr-1'')) \<in>
     set (call_trace (run ex_handler ex_price (ex_client ex_stream)
       (ex_args(''guardrailConfig'' \<mapsto> ''gr-1'')) 0))"
    by (simp add: run_opened ex_client_def)
  from guardrail_passed_iff_supplied [OF a] guardrail_passed_iff_supplied [OF b] a b
  show ?thesis by (simp add: ex_args_def)
qed

text \<open>
  C8. When \<open>client.converse_stream\<close> raises \<open>e\<close>, \<open>run\<close> logs the request, calls the
  backend, logs \<open>e\<close> as an error and raises \<open>e\<close> again; nothing is yielded, no callback is
  called and the caller's state is untouched.
\<close>

theorem failed_call_is_logged_and_reraised:
  assumes "base_args_of args = Inr base_args"
    and "converse_stream base_args = Inl e"
  shows "call_trace (run h cp converse_stream args s) =
           [LogInfoArgs args, ConverseStream base_args, LogError (ClientError e)] \<and>
         outcome (run h cp converse_stream args s) = Raised (ClientError e) \<and>
         trace (run h cp converse_stream args s) = [] \<and>
         yields (trace (run h cp converse_stream args s)) = [] \<and>
         on_stream_calls (trace (run h cp converse_stream args s)) = [] \<and>
         on_stop_calls (trace (run h cp converse_stream args s)) = [] \<and>
         final_state (run h cp converse_stream args s) = s"
  using assms by (simp add: run_def)

theorem failed_call_is_logged_and_reraised_witness:
  "call_trace (run ex_handler ex_price ex_failing_client ex_args 0) =
     [LogInfoArgs ex_args, ConverseStream ex_base_args,
      LogError (ClientError ''EndpointConnectionError'')] \<and>
   outcome (run ex_handler ex_price ex_failing_client ex_args 0) =
     Raised (ClientError ''EndpointConnectionError'') \<and>
   yields (trace (run ex_handler ex_price ex_failing_client ex_args 0)) = [] \<and>
   on_stream_calls (trace (run ex_handler ex_price ex_failing_client ex_args 0)) = [] \<and>
   on_stop_calls (trace (run ex_handler ex_price ex_failing_client ex_args 0)) = [] \<and>
   final_state (run ex_handler ex_price ex_failing_client ex_args 0) = 0"
proof -
  have "ex_failing_client ex_base_args = Inl ''EndpointConnectionError''"
    by (simp add: ex_failing_client_def)
  from failed_call_is_logged_and_reraised
    [where converse_stream = ex_failing_client and h = ex_handler and cp = ex_price and s = 0,
     OF ex_base_args this]
  show ?thesis by simp
qed

text \<open>
  C9. For a \<open>MessageStop r\<close> between the events \<open>pre\<close> and \<open>post\<close>: the trace of the run
  is the effects \<open>t1\<close> of \<open>pre\<close>, one debug log entry for the event, and the effects \<open>t3\<close> of
  \<open>post\<close>, where the loop goes on over \<open>post\<close> with the completions and the caller's state
  that \<open>pre\<close> left and with \<open>r\<close> as the stop reason. So the event yields nothing and calls
  no callback.
\<close>

theorem message_stop_only_records_stop_reason:
  assumes "base_args_of args = Inr base_args"
    and "converse_stream base_args = Inr (pre @ MessageStop r # post)"
  shows "case stream_loop h cp pre [] [] s of (t1, completions, stop_reason1, s1) \<Rightarrow>
         case stream_loop h cp post completions r s1 of (t3, completions3, stop_reason3, s3) \<Rightarrow>
           trace (run h cp converse_stream args s) = t1 @ [LogDebug (MessageStop r)] @ t3 \<and>
           final_state (run h cp converse_stream args s) = s3 \<and>
           yields (trace (run h cp converse_stream args s)) = yields t1 @ yields t3 \<and>
           on_stream_calls (trace (run h cp converse_stream args s)) =
             on_stream_calls t1 @ on_stream_calls t3 \<and>
           on_stop_calls (trace (run h cp converse_stream args s)) =
             on_stop_calls t1 @ on_stop_calls t3"
  using assms
  by (simp add: run_opened loop_message_stop split_beta yields_append
      on_stream_calls_append on_stop_calls_append)

theorem message_stop_only_records_stop_reason_witness:
  "trace (run ex_handler ex_price (ex_client ex_stream) ex_args 0) =
     [LogDebug (ContentBlockDelta (str_of ''Hi'')),
      CallOnStream (str_of ''Hi'') (Inl (str_of ''Hi'')),
      Yield (Inl (str_of ''Hi'')),
      LogDebug (ContentBlockDelta (str_of '' there'')),
      CallOnStream (str_of '' there'') (Inl (str_of '' there'')),
      Yield (Inl (str_of '' there''))] @
     [LogDebug (MessageStop (str_of ''end_turn''))] @
     [LogDebug (Metadata 5 2),
      CallOnStop \<lparr>full_token = str_of ''Hi there'', stop_reason = str_of ''end_turn'',
                   input_token_count = 5, output_token_count = 2, price = 45\<rparr>
        (Inr \<lparr>full_token = str_of ''Hi there'', stop_reason = str_of ''end_turn'',
               input_token_count = 5, output_token_count = 2, price = 45\<rparr>),
      LogInfoEvent (Metadata 5 2),
      Yield (Inr \<lparr>full_token = str_of ''Hi there'', stop_reason = str_of ''end_turn'',
                    input_token_count = 5, output_token_count = 2, price = 45\<rparr>)] \<and>
   final_state (run ex_handler ex_price (ex_client ex_stream) ex_args 0) = 3"
proof -
  have "ex_client ex_stream ex_base_args =
      Inr ([ContentBlockDelta (str_of ''Hi''), ContentBlockDelta (str_of '' there'')] @
           MessageStop (str_of ''end_turn'') # [Metadata 5 2])"
    by (simp add: ex_client_def ex_stream_def)
  from message_stop_only_records_stop_reason
    [where converse_stream = "ex_client ex_stream" and h = ex_handler and cp = ex_price
       and s = 0, OF ex_base_args this]
  show ?thesis
    by (simp add: split_beta ex_handler_def ex_price_def Let_def rstrip_def isspace_def
        str_of_def)
qed

text \<open>
  C10. When no \<open>MessageStop\<close> event comes before a \<open>Metadata\<close> event, \<open>on_stop\<close> is
  still called for that event (it is call number \<open>length (usages pre)\<close>, counting from 0),
  and the summary it gets has the empty stop reason and the token counts of the event.
\<close>

theorem metadata_without_message_stop_has_empty_stop_reason:
  assumes "base_args_of args = Inr base_args"
    and "converse_stream base_args = Inr (pre @ Metadata i o' # post)"
    and "stop_reasons pre = []"
  shows "length (usages pre) < length (on_stop_calls (trace (run h cp converse_stream args s))) \<and>
         stop_reason (on_stop_calls (trace (run h cp converse_stream args s)) !
           length (usages pre)) = [] \<and>
         input_token_count (on_stop_calls (trace (run h cp converse_stream args s)) !
           length (usages pre)) = i \<and>
         output_token_count (on_stop_calls (trace (run h cp converse_stream args s)) !
           length (usages pre)) = o'"
proof -
  have tr: "trace (run h cp converse_stream args s) =
      fst (stream_loop h cp (pre @ Metadata i o' # post) [] [] s)"
    using assms(1,2) by (simp add: run_trace)
  have n: "length (on_stop_calls (fst (stream_loop h cp pre [] [] s))) = length (usages pre)"
    by (rule loop_on_stop_calls_length)
  show ?thesis
    using assms(3) n
    by (simp add: tr loop_metadata Let_def split_beta on_stop_calls_append nth_append)
qed

theorem metadata_without_message_stop_has_empty_stop_reason_witness:
  "on_stop_calls (trace (run ex_handler ex_price
      (ex_client [ContentBlockDelta (str_of ''Hi''), Metadata 5 2]) ex_args 0)) ! 0 =
     \<lparr>full_token = str_of ''Hi'', stop_reason = [],
      input_token_count = 5, output_token_count = 2, price = 45\<rparr> \<and>
   stop_reason (on_stop_calls (trace (run ex_handler ex_price
      (ex_client [ContentBlockDelta (str_of ''Hi''), Metadata 5 2]) ex_args 0)) ! 0) = []"
proof -
  have "ex_client [ContentBlockDelta (str_of ''Hi''), Metadata 5 2] ex_base_args =
      Inr ([ContentBlockDelta (str_of ''Hi'')] @ Metadata 5 2 # [])"
    by (simp add: ex_client_def)
  from metadata_without_message_stop_has_empty_stop_reason
    [where converse_stream = "ex_client [ContentBlockDelta (str_of ''Hi''), Metadata 5 2]"
       and h = ex_handler and cp = ex_price and s = 0, OF ex_base_args this]
  show ?thesis
    by (simp add: ex_run ex_handler_def ex_price_def Let_def rstrip_def isspace_def str_of_def)
qed

end
